theory Spec2Isabelle
  imports Complex_Main
begin

section \<open>Data model\<close>

text \<open>
  The value types of \<^verbatim>\<open>types/audio.ts\<close> and \<^verbatim>\<open>types/composition.ts\<close>.
  A JavaScript \<^verbatim>\<open>number\<close> that holds a time, a tempo or an intensity is modelled by an
  exact real number; line numbers are integers.
\<close>

datatype MoodState = DISCORDANT | HARMONIOUS | INTENSE

record MoodData =
  tempo :: real
  rootKey :: string
  intensity :: real
  mood :: MoodState

datatype SectionType = Import | Function | Return | Loop | Conditional | Other

datatype InstrumentType = Rhythm | Harmony | Melody

record CompositionSection =
  sectionType :: SectionType
  startLine :: int
  endLine :: int
  duration :: real
  sectionNotes :: "string list"
  sectionTempo :: real
  instrument :: InstrumentType

section \<open>The transport of the audio backend\<close>

text \<open>
  \<^verbatim>\<open>InstrumentManager.ts\<close> drives the transport of the audio library through five calls:
  \<^verbatim>\<open>bpm.value = x\<close>, \<^verbatim>\<open>schedule(callback, time)\<close>, \<^verbatim>\<open>cancel()\<close>, \<^verbatim>\<open>start()\<close> and
  \<^verbatim>\<open>stop()\<close> / \<^verbatim>\<open>stop('+t')\<close>. The library itself is outside the repository. Its transport is
  modelled as a record: the global tempo, whether the transport runs, the timeline of
  scheduled callbacks in the order in which they were scheduled, and the pending relative
  stop, if any. Every callback that the manager schedules triggers one instrument once, so
  a timeline entry is the transport time together with that trigger.
\<close>

datatype Synth = RhythmInstrument | HarmonyInstrument | MelodyInstrument | ErrorSynth

datatype NoteLength = Notation string | Seconds real

record Trigger =
  synth :: Synth
  pitches :: "string list"
  noteLength :: NoteLength

datatype PlaybackState = Started | Stopped

record Transport =
  bpm :: real
  playback :: PlaybackState
  timeline :: "(real \<times> Trigger) list"
  stopIn :: "real option"

definition setBpm :: "real \<Rightarrow> Transport \<Rightarrow> Transport" where
  "setBpm v t = t\<lparr>bpm := v\<rparr>"

definition schedule :: "Trigger \<Rightarrow> real \<Rightarrow> Transport \<Rightarrow> Transport" where
  "schedule tr time t = t\<lparr>timeline := timeline t @ [(time, tr)]\<rparr>"

definition cancel :: "Transport \<Rightarrow> Transport" where
  "cancel t = t\<lparr>timeline := []\<rparr>"

definition start :: "Transport \<Rightarrow> Transport" where
  "start t = t\<lparr>playback := Started\<rparr>"

definition stop :: "Transport \<Rightarrow> Transport" where
  "stop t = t\<lparr>playback := Stopped, stopIn := None\<rparr>"

definition stopAfter :: "real \<Rightarrow> Transport \<Rightarrow> Transport" where
  "stopAfter d t = t\<lparr>stopIn := Some d\<rparr>"

definition idle :: Transport where
  "idle = \<lparr>bpm = 120, playback = Stopped, timeline = [], stopIn = None\<rparr>"

section \<open>InstrumentManager: commit playback\<close>

text \<open>\<^verbatim>\<open>scheduleImportSection\<close>: a beat every half second, then one chord at the start.\<close>

fun importBeats :: "real \<Rightarrow> nat \<Rightarrow> nat \<Rightarrow> Transport \<Rightarrow> Transport" where
  "importBeats startTime i 0 t = t"
| "importBeats startTime i (Suc n) t =
     importBeats startTime (Suc i) n
       (schedule \<lparr>synth = RhythmInstrument, pitches = [''C2''], noteLength = Notation ''8n''\<rparr>
          (startTime + real i * (1/2)) t)"

definition scheduleImportSection ::
  "real \<Rightarrow> real \<Rightarrow> string list \<Rightarrow> Transport \<Rightarrow> Transport" where
  "scheduleImportSection startTime dur ns t =
     (let beatInterval = 1/2;
          numBeats = \<lfloor>dur / beatInterval\<rfloor>;
          t1 = importBeats startTime 0 (nat numBeats) t
      in if length ns > 0
         then schedule \<lparr>synth = HarmonyInstrument, pitches = take 3 ns, noteLength = Seconds dur\<rparr>
                startTime t1
         else t1)"

text \<open>
  \<^verbatim>\<open>scheduleFunctionSection\<close>: the \<^verbatim>\<open>forEach\<close> over the notes carries the index; each
  note is scheduled on the melody instrument, every second one also on the rhythm
  instrument, and a chord of the first, middle and last note follows when there are at
  least three notes.
\<close>

fun functionNotes :: "real \<Rightarrow> real \<Rightarrow> nat \<Rightarrow> string list \<Rightarrow> Transport \<Rightarrow> Transport" where
  "functionNotes startTime noteInterval index [] t = t"
| "functionNotes startTime noteInterval index (note # rest) t =
     (let time = startTime + real index * noteInterval;
          t1 = schedule \<lparr>synth = MelodyInstrument, pitches = [note], noteLength = Notation ''8n''\<rparr>
                 time t;
          t2 = (if index mod 2 = 0
                then schedule \<lparr>synth = RhythmInstrument, pitches = [''C1''],
                       noteLength = Notation ''16n''\<rparr> time t1
                else t1)
      in functionNotes startTime noteInterval (Suc index) rest t2)"

definition scheduleFunctionSection ::
  "real \<Rightarrow> real \<Rightarrow> string list \<Rightarrow> Transport \<Rightarrow> Transport" where
  "scheduleFunctionSection startTime dur ns t =
     (if length ns = 0 then t
      else let noteInterval = dur / real (length ns);
               t1 = functionNotes startTime noteInterval 0 ns t
           in if length ns \<ge> 3
              then schedule \<lparr>synth = HarmonyInstrument,
                     pitches = [ns ! 0, ns ! (length ns div 2), ns ! (length ns - 1)],
                     noteLength = Seconds (dur * (8/10))\<rparr> startTime t1
              else t1)"

text \<open>\<^verbatim>\<open>scheduleReturnSection\<close>: chord, final melody note and rhythm hit, in this order.\<close>

definition scheduleReturnSection ::
  "real \<Rightarrow> real \<Rightarrow> string list \<Rightarrow> Transport \<Rightarrow> Transport" where
  "scheduleReturnSection startTime dur ns t =
     (if length ns \<ge> 3
      then let resolvingChord = take 3 ns;
               t1 = schedule \<lparr>synth = HarmonyInstrument, pitches = resolvingChord,
                      noteLength = Seconds dur\<rparr> startTime t;
               t2 = schedule \<lparr>synth = MelodyInstrument, pitches = [ns ! 0],
                      noteLength = Seconds (dur * (5/10))\<rparr> (startTime + dur * (3/10)) t1
           in schedule \<lparr>synth = RhythmInstrument, pitches = [''C2''],
                noteLength = Notation ''4n''\<rparr> startTime t2
      else t)"

text \<open>\<^verbatim>\<open>scheduleGenericSection\<close>: one pattern per instrument.\<close>

fun genericNotes :: "real \<Rightarrow> real \<Rightarrow> nat \<Rightarrow> string list \<Rightarrow> Transport \<Rightarrow> Transport" where
  "genericNotes startTime noteInterval index [] t = t"
| "genericNotes startTime noteInterval index (note # rest) t =
     genericNotes startTime noteInterval (Suc index) rest
       (schedule \<lparr>synth = MelodyInstrument, pitches = [note], noteLength = Notation ''16n''\<rparr>
          (startTime + real index * noteInterval) t)"

definition scheduleGenericSection ::
  "real \<Rightarrow> real \<Rightarrow> string list \<Rightarrow> InstrumentType \<Rightarrow> Transport \<Rightarrow> Transport" where
  "scheduleGenericSection startTime dur ns instr t =
     (if length ns = 0 then t
      else case instr of
        Rhythm \<Rightarrow>
          schedule \<lparr>synth = RhythmInstrument, pitches = [''C1''], noteLength = Notation ''8n''\<rparr>
            startTime t
      | Harmony \<Rightarrow>
          schedule \<lparr>synth = HarmonyInstrument, pitches = take 3 ns, noteLength = Seconds dur\<rparr>
            startTime t
      | Melody \<Rightarrow> genericNotes startTime (dur / real (length ns)) 0 ns t)"

text \<open>
  The \<^verbatim>\<open>switch\<close> on the section type inside the \<^verbatim>\<open>forEach\<close> of
  \<^verbatim>\<open>playCommitComposition\<close>.
\<close>

definition scheduleSection :: "real \<Rightarrow> CompositionSection \<Rightarrow> Transport \<Rightarrow> Transport" where
  "scheduleSection startTime section t =
     (case sectionType section of
        Import \<Rightarrow> scheduleImportSection startTime (duration section) (sectionNotes section) t
      | Function \<Rightarrow> scheduleFunctionSection startTime (duration section) (sectionNotes section) t
      | Return \<Rightarrow> scheduleReturnSection startTime (duration section) (sectionNotes section) t
      | _ \<Rightarrow> scheduleGenericSection startTime (duration section) (sectionNotes section)
               (instrument section) t)"

text \<open>
  The \<^verbatim>\<open>forEach\<close> of \<^verbatim>\<open>playCommitComposition\<close>, with the local \<^verbatim>\<open>currentTime\<close> as an
  accumulator that is returned with the transport.
\<close>

fun forEachSection ::
  "CompositionSection list \<Rightarrow> real \<Rightarrow> Transport \<Rightarrow> Transport \<times> real" where
  "forEachSection [] currentTime t = (t, currentTime)"
| "forEachSection (section # rest) currentTime t =
     (let startTime = currentTime;
          t1 = setBpm (sectionTempo section) t;
          t2 = scheduleSection startTime section t1
      in forEachSection rest (currentTime + duration section) t2)"

definition playCommitComposition :: "CompositionSection list \<Rightarrow> Transport \<Rightarrow> Transport" where
  "playCommitComposition sections t =
     (let t0 = cancel (stop t);
          (t1, currentTime) = forEachSection sections 0 t0
      in stopAfter currentTime (start t1))"

section \<open>CodeAnalyzer: text helpers\<close>

text \<open>
  \<^verbatim>\<open>services/CodeAnalyzer.ts\<close> is not among the sources; only its unit tests, its callers and
  the sketch of \<^verbatim>\<open>analyze\<close> in the design document are. The detectors below follow the
  specification's description of them, on a text that is a list of characters. The text
  helpers stand for the string methods of the language: \<^verbatim>\<open>startsWith\<close>, \<^verbatim>\<open>endsWith\<close>,
  \<^verbatim>\<open>indexOf\<close>, \<^verbatim>\<open>includes\<close> (here \<^verbatim>\<open>contains\<close>), \<^verbatim>\<open>split('\n')\<close> and \<^verbatim>\<open>trimStart\<close>.
\<close>

fun startsWith :: "string \<Rightarrow> string \<Rightarrow> bool" where
  "startsWith text [] = True"
| "startsWith [] (p # ps) = False"
| "startsWith (c # cs) (p # ps) = (c = p \<and> startsWith cs ps)"

definition endsWith :: "string \<Rightarrow> string \<Rightarrow> bool" where
  "endsWith text suffix = startsWith (rev text) (rev suffix)"

fun indexOfFrom :: "nat \<Rightarrow> string \<Rightarrow> string \<Rightarrow> nat option" where
  "indexOfFrom i [] pat = (if pat = [] then Some i else None)"
| "indexOfFrom i (c # cs) pat =
     (if startsWith (c # cs) pat then Some i else indexOfFrom (Suc i) cs pat)"

definition contains :: "string \<Rightarrow> string \<Rightarrow> bool" where
  "contains text pat = (indexOfFrom 0 text pat \<noteq> None)"

fun splitLines :: "string \<Rightarrow> string list" where
  "splitLines [] = [[]]"
| "splitLines (c # cs) =
     (if c = CHR 0x0A then [] # splitLines cs
      else case splitLines cs of [] \<Rightarrow> [[c]] | l # ls \<Rightarrow> (c # l) # ls)"

definition isSpace :: "char \<Rightarrow> bool" where
  "isSpace c = (c = CHR '' '' \<or> c = CHR 0x09 \<or> c = CHR 0x0D)"

definition isBlank :: "string \<Rightarrow> bool" where
  "isBlank line = list_all isSpace line"

definition trimLeft :: "string \<Rightarrow> string" where
  "trimLeft line = dropWhile isSpace line"

definition indentation :: "string \<Rightarrow> nat" where
  "indentation line = length (takeWhile (\<lambda>c. c = CHR '' '') line)"

definition isIdentChar :: "char \<Rightarrow> bool" where
  "isIdentChar c =
     (let n = (of_char c :: nat)
      in (65 \<le> n \<and> n \<le> 90) \<or> (97 \<le> n \<and> n \<le> 122) \<or> (48 \<le> n \<and> n \<le> 57)
         \<or> c = CHR ''_'' \<or> c = CHR ''$'')"

section \<open>CodeAnalyzer: the four detectors\<close>

text \<open>
  Modelled from the spec: the three kinds of error that \<^verbatim>\<open>detectSyntaxErrors\<close> of the missing
  \<^verbatim>\<open>CodeAnalyzer.ts\<close> detects: a misspelled keyword, unmatched parentheses, unmatched braces.
\<close>

datatype ErrorCategory = Misspelling | UnmatchedParenthesis | UnmatchedBrace

text \<open>
  Modelled from the spec: the element type of the result of \<^verbatim>\<open>detectSyntaxErrors\<close> of the missing
  \<^verbatim>\<open>CodeAnalyzer.ts\<close>, a message with an optional position; the detected category is kept with it.
\<close>

record SyntaxError =
  category :: ErrorCategory
  message :: string
  position :: "nat option"

text \<open>
  Modelled from the spec: the fixed dictionary of common misspellings per language in the missing
  \<^verbatim>\<open>CodeAnalyzer.ts\<close>. The specification names two entries, \<^verbatim>\<open>fucntion\<close> for \<^verbatim>\<open>function\<close> and
  \<^verbatim>\<open>retunr\<close> for \<^verbatim>\<open>return\<close>; the dictionary holds these, the first for JavaScript only,
  where \<^verbatim>\<open>function\<close> is a keyword.
\<close>

definition typoDictionary :: "string \<Rightarrow> (string \<times> string) list" where
  "typoDictionary language =
     (if language = ''javascript'' then [(''fucntion'', ''function''), (''retunr'', ''return'')]
      else if language = ''python'' then [(''retunr'', ''return'')]
      else [])"

text \<open>
  Modelled from the spec: the misspelling check of \<^verbatim>\<open>detectSyntaxErrors\<close> in the missing \<^verbatim>\<open>CodeAnalyzer.ts\<close>, a
  substring match of every dictionary entry against the text.
\<close>

definition misspellings :: "string \<Rightarrow> string \<Rightarrow> SyntaxError list" where
  "misspellings code language =
     concat (map (\<lambda>(typo, keyword).
        case indexOfFrom 0 code typo of
          None \<Rightarrow> []
        | Some i \<Rightarrow> [\<lparr>category = Misspelling,
                      message = ''Misspelled keyword: '' @ keyword, position = Some i\<rparr>])
       (typoDictionary language))"

text \<open>
  Modelled from the spec: the running balance of an opening and a closing character across the
  text, kept by the bracket checks of \<^verbatim>\<open>detectSyntaxErrors\<close> in the missing \<^verbatim>\<open>CodeAnalyzer.ts\<close>,
  together with whether the balance was ever negative.
\<close>

fun runningBalance :: "char \<Rightarrow> char \<Rightarrow> string \<Rightarrow> int \<Rightarrow> bool \<Rightarrow> int \<times> bool" where
  "runningBalance opn cls [] balance negative = (balance, negative)"
| "runningBalance opn cls (c # cs) balance negative =
     (let b = (if c = opn then balance + 1 else if c = cls then balance - 1 else balance)
      in runningBalance opn cls cs b (negative \<or> b < 0))"

text \<open>
  Modelled from the spec: the bracket check of \<^verbatim>\<open>detectSyntaxErrors\<close> in the missing \<^verbatim>\<open>CodeAnalyzer.ts\<close>: a balance
  that becomes negative, or that is not zero at the end, signals an error.
\<close>

definition unmatched :: "char \<Rightarrow> char \<Rightarrow> string \<Rightarrow> bool" where
  "unmatched opn cls code =
     (let (balance, negative) = runningBalance opn cls code 0 False
      in negative \<or> balance \<noteq> 0)"

text \<open>
  Modelled from the spec: \<^verbatim>\<open>detectSyntaxErrors(code, language)\<close> of the missing \<^verbatim>\<open>CodeAnalyzer.ts\<close>: all
  three checks, the misspellings first.
\<close>

definition detectSyntaxErrors :: "string \<Rightarrow> string \<Rightarrow> SyntaxError list" where
  "detectSyntaxErrors code language =
     misspellings code language
     @ (if unmatched (CHR ''('') (CHR '')'') code
        then [\<lparr>category = UnmatchedParenthesis, message = ''Unmatched parentheses'',
               position = None\<rparr>]
        else [])
     @ (if unmatched (CHR ''{'') (CHR ''}'') code
        then [\<lparr>category = UnmatchedBrace, message = ''Unmatched braces'', position = None\<rparr>]
        else [])"

text \<open>
  Modelled from the spec: the brace scan of \<^verbatim>\<open>calculateNestingDepth\<close> in the missing \<^verbatim>\<open>CodeAnalyzer.ts\<close>: an opening
  brace counts +1, a closing brace -1, and the running maximum is the depth.
\<close>

fun braceDepth :: "string \<Rightarrow> int \<Rightarrow> nat \<Rightarrow> nat" where
  "braceDepth [] count best = best"
| "braceDepth (c # cs) count best =
     (let n = (if c = CHR ''{'' then count + 1 else if c = CHR ''}'' then count - 1 else count)
      in braceDepth cs n (max best (nat n)))"

text \<open>
  Modelled from the spec: the indentation scan of \<^verbatim>\<open>calculateNestingDepth\<close> in the missing \<^verbatim>\<open>CodeAnalyzer.ts\<close>: the
  largest indentation, in units of four spaces, of a non-blank line that follows a line
  ending in a colon.
\<close>

fun indentDepth :: "string list \<Rightarrow> bool \<Rightarrow> nat \<Rightarrow> nat" where
  "indentDepth [] afterColon best = best"
| "indentDepth (l # ls) afterColon best =
     (if isBlank l then indentDepth ls afterColon best
      else indentDepth ls (endsWith l '':'')
             (if afterColon then max best (indentation l div 4) else best))"

text \<open>
  Modelled from the spec: \<^verbatim>\<open>calculateNestingDepth(code)\<close> of the missing \<^verbatim>\<open>CodeAnalyzer.ts\<close>: the brace
  scan for a text with braces, the indentation scan for a text without.
\<close>

definition calculateNestingDepth :: "string \<Rightarrow> nat" where
  "calculateNestingDepth code =
     (if CHR ''{'' \<in> set code \<or> CHR ''}'' \<in> set code then braceDepth code 0 0
      else indentDepth (splitLines code) False 0)"

text \<open>
  Modelled from the spec: the name of a declaration \<^verbatim>\<open>function NAME(\<close> or \<^verbatim>\<open>def NAME(\<close>, read by
  \<^verbatim>\<open>detectRecursion\<close> of the missing \<^verbatim>\<open>CodeAnalyzer.ts\<close> from the text after the keyword, with the text
  after the parenthesis.
\<close>

definition declaredName :: "string \<Rightarrow> (string \<times> string) option" where
  "declaredName text =
     (let name = takeWhile isIdentChar text; after = dropWhile isIdentChar text
      in if name \<noteq> [] \<and> startsWith after ''('' then Some (name, tl after) else None)"

text \<open>
  Modelled from the spec: the text up to the closing brace that matches an opening one, the body of a
  \<^verbatim>\<open>function\<close> declaration for \<^verbatim>\<open>detectRecursion\<close> of the missing \<^verbatim>\<open>CodeAnalyzer.ts\<close>.
\<close>

fun matchingBody :: "string \<Rightarrow> nat \<Rightarrow> string" where
  "matchingBody [] depth = []"
| "matchingBody (c # cs) depth =
     (if c = CHR ''}'' then (if depth \<le> 1 then [] else c # matchingBody cs (depth - 1))
      else if c = CHR ''{'' then c # matchingBody cs (depth + 1)
      else c # matchingBody cs depth)"

text \<open>
  Modelled from the spec: the body of a \<^verbatim>\<open>function\<close> declaration for \<^verbatim>\<open>detectRecursion\<close> of the
  missing \<^verbatim>\<open>CodeAnalyzer.ts\<close>: the text between the first opening brace after the declaration and the
  matching closing brace.
\<close>

definition functionBody :: "string \<Rightarrow> string" where
  "functionBody rest =
     (case dropWhile (\<lambda>c. c \<noteq> CHR ''{'') rest of [] \<Rightarrow> [] | _ # inner \<Rightarrow> matchingBody inner 1)"

text \<open>
  Modelled from the spec: the test of \<^verbatim>\<open>detectRecursion\<close> in the missing \<^verbatim>\<open>CodeAnalyzer.ts\<close>: the declared name
  followed by an opening parenthesis occurs in the body of the declaration.
\<close>

definition callsItself :: "string \<Rightarrow> (string \<Rightarrow> string) \<Rightarrow> bool" where
  "callsItself afterKeyword bodyOf =
     (case declaredName afterKeyword of
        None \<Rightarrow> False
      | Some (name, rest) \<Rightarrow> contains (bodyOf rest) (name @ ''(''))"

text \<open>
  Modelled from the spec: the search of \<^verbatim>\<open>detectRecursion\<close> in the missing \<^verbatim>\<open>CodeAnalyzer.ts\<close> for a
  \<^verbatim>\<open>function\<close> declaration that calls itself, at every position of the text.
\<close>

fun functionRecursion :: "string \<Rightarrow> bool" where
  "functionRecursion [] = False"
| "functionRecursion (c # cs) =
     ((startsWith (c # cs) ''function '' \<and> callsItself (drop 9 (c # cs)) functionBody)
      \<or> functionRecursion cs)"

text \<open>
  Modelled from the spec: the body of a \<^verbatim>\<open>def\<close> for \<^verbatim>\<open>detectRecursion\<close> of the missing \<^verbatim>\<open>CodeAnalyzer.ts\<close>: the rest
  of its line and the following lines that are blank or indented more deeply.
\<close>

definition defBody :: "nat \<Rightarrow> string list \<Rightarrow> string \<Rightarrow> string" where
  "defBody k following rest =
     rest @ concat (map (\<lambda>l. CHR 0x0A # l)
                      (takeWhile (\<lambda>l. isBlank l \<or> k < indentation l) following))"

text \<open>
  Modelled from the spec: the search of \<^verbatim>\<open>detectRecursion\<close> in the missing \<^verbatim>\<open>CodeAnalyzer.ts\<close> for a \<^verbatim>\<open>def\<close>
  that calls itself, line by line.
\<close>

fun defRecursion :: "string list \<Rightarrow> bool" where
  "defRecursion [] = False"
| "defRecursion (l # ls) =
     ((startsWith (trimLeft l) ''def ''
        \<and> callsItself (drop 4 (trimLeft l)) (defBody (indentation l) ls))
      \<or> defRecursion ls)"

text \<open>
  Modelled from the spec: \<^verbatim>\<open>detectRecursion(code)\<close> of the missing \<^verbatim>\<open>CodeAnalyzer.ts\<close>: some declared function
  is called in its own body.
\<close>

definition detectRecursion :: "string \<Rightarrow> bool" where
  "detectRecursion code = (functionRecursion code \<or> defRecursion (splitLines code))"

text \<open>
  Modelled from the spec: \<^verbatim>\<open>detectComments(code)\<close> of the missing \<^verbatim>\<open>CodeAnalyzer.ts\<close>: the text contains a
  line-comment marker, a block comment (an opening marker with a closing marker after it)
  or a hash.
\<close>

definition detectComments :: "string \<Rightarrow> bool" where
  "detectComments code =
     (contains code ''//''
      \<or> (case indexOfFrom 0 code ''/*'' of
            None \<Rightarrow> False
          | Some i \<Rightarrow> contains (drop (i + 2) code) ''*/'')
      \<or> contains code ''#'')"

section \<open>CodeAnalyzer: mood classification\<close>

text \<open>
  \<^verbatim>\<open>analyze\<close> as the design document gives it (Analysis Logic). The four detectors that
  it calls are parameters of \<^verbatim>\<open>analyzeWith\<close>, so that what is proved of it holds for every
  implementation of them; \<^verbatim>\<open>analyze\<close> supplies the detectors above.
\<close>

definition analyzeWith ::
  "(string \<Rightarrow> string \<Rightarrow> 'e list) \<Rightarrow> (string \<Rightarrow> nat) \<Rightarrow> (string \<Rightarrow> bool) \<Rightarrow> (string \<Rightarrow> bool)
     \<Rightarrow> string \<Rightarrow> string \<Rightarrow> MoodData" where
  "analyzeWith syntaxErrorsOf nestingDepthOf recursionOf commentsOf code language =
     (let errors = syntaxErrorsOf code language;
          nestingDepth = nestingDepthOf code;
          hasRecursion = recursionOf code;
          hasComments = commentsOf code;
          (mood, rootKey, intensity) =
            (if length errors > 0 then (DISCORDANT, ''Dm'', 8/10)
             else if hasComments \<and> nestingDepth \<le> 2 then (HARMONIOUS, ''C'', 3/10)
             else if hasRecursion \<or> nestingDepth > 4 then (INTENSE, ''Am'', 9/10)
             else (HARMONIOUS, ''G'', 5/10));
          tempo = 60 + (intensity * 120)
      in \<lparr>tempo = tempo, rootKey = rootKey, intensity = intensity, mood = mood\<rparr>)"

definition analyze :: "string \<Rightarrow> string \<Rightarrow> MoodData" where
  "analyze = analyzeWith detectSyntaxErrors calculateNestingDepth detectRecursion detectComments"

section \<open>CodeAnalyzer: composition planning\<close>

text \<open>
  Modelled from the spec: the pattern of an import statement, \<^verbatim>\<open>import ...\<close> or \<^verbatim>\<open>from ... import\<close>,
  by which \<^verbatim>\<open>analyzeForComposition\<close> of the missing \<^verbatim>\<open>CodeAnalyzer.ts\<close> finds a section boundary.
\<close>

definition isImportLine :: "string \<Rightarrow> bool" where
  "isImportLine line =
     (let t = trimLeft line
      in startsWith t ''import '' \<or> (startsWith t ''from '' \<and> contains t '' import ''))"

text \<open>
  Modelled from the spec: the pattern of a \<^verbatim>\<open>function\<close> declaration for \<^verbatim>\<open>analyzeForComposition\<close>
  of the missing \<^verbatim>\<open>CodeAnalyzer.ts\<close>.
\<close>

definition isFunctionLine :: "string \<Rightarrow> bool" where
  "isFunctionLine line = (startsWith (trimLeft line) ''function '')"

text \<open>
  Modelled from the spec: the pattern of a \<^verbatim>\<open>def\<close> declaration for \<^verbatim>\<open>analyzeForComposition\<close> of the
  missing \<^verbatim>\<open>CodeAnalyzer.ts\<close>.
\<close>

definition isDefLine :: "string \<Rightarrow> bool" where
  "isDefLine line = (startsWith (trimLeft line) ''def '')"

text \<open>
  Modelled from the spec: the pattern of a return statement for \<^verbatim>\<open>analyzeForComposition\<close> of the
  missing \<^verbatim>\<open>CodeAnalyzer.ts\<close>: the keyword, not continued by an identifier character.
\<close>

definition isReturnLine :: "string \<Rightarrow> bool" where
  "isReturnLine line =
     (let t = trimLeft line
      in startsWith t ''return'' \<and> (case drop 6 t of [] \<Rightarrow> True | c # _ \<Rightarrow> \<not> isIdentChar c))"

text \<open>
  Modelled from the spec: how the scan of \<^verbatim>\<open>analyzeForComposition\<close> in the missing \<^verbatim>\<open>CodeAnalyzer.ts\<close> finds the end of
  the function it is in: by the balance of braces since the declaration, with whether a
  brace was opened, or by the indentation of the \<^verbatim>\<open>def\<close> line.
\<close>

datatype Extent = Braces int bool | Indent nat

text \<open>
  Modelled from the spec: a section as the scan of \<^verbatim>\<open>analyzeForComposition\<close> in the missing \<^verbatim>\<open>CodeAnalyzer.ts\<close> sees it:
  its type, its first line and its last line, lines counted from 1.
\<close>

type_synonym Span = "SectionType \<times> nat \<times> nat"

text \<open>
  Modelled from the spec: the state of the top-to-bottom scan of \<^verbatim>\<open>analyzeForComposition\<close> in the missing
  \<^verbatim>\<open>CodeAnalyzer.ts\<close>: the finished spans, the open spans in the order in which they were
  opened (inside a function these are the function section and the return sections in it),
  and the extent of the function the scan is in.
\<close>

record Scan =
  finished :: "Span list"
  current :: "Span list"
  extent :: "Extent option"

text \<open>
  Modelled from the spec: the scan of \<^verbatim>\<open>analyzeForComposition\<close> in the missing \<^verbatim>\<open>CodeAnalyzer.ts\<close> closes the
  open spans.
\<close>

definition closeCurrent :: "Scan \<Rightarrow> Scan" where
  "closeCurrent s = s\<lparr>finished := finished s @ current s, current := []\<rparr>"

text \<open>
  Modelled from the spec: the scan of \<^verbatim>\<open>analyzeForComposition\<close> in the missing \<^verbatim>\<open>CodeAnalyzer.ts\<close> closes the
  open spans and opens a new one at a line.
\<close>

definition openSection :: "SectionType \<Rightarrow> nat \<Rightarrow> Scan \<Rightarrow> Scan" where
  "openSection ty n s = (closeCurrent s)\<lparr>current := [(ty, n, n)]\<rparr>"

text \<open>
  Modelled from the spec: the scan of \<^verbatim>\<open>analyzeForComposition\<close> in the missing \<^verbatim>\<open>CodeAnalyzer.ts\<close> opens a
  span at a line inside the spans that are open: a return section in a function section.
\<close>

definition nestSection :: "SectionType \<Rightarrow> nat \<Rightarrow> Scan \<Rightarrow> Scan" where
  "nestSection ty n s = s\<lparr>current := current s @ [(ty, n, n)]\<rparr>"

text \<open>
  Modelled from the spec: the scan of \<^verbatim>\<open>analyzeForComposition\<close> in the missing \<^verbatim>\<open>CodeAnalyzer.ts\<close> extends the
  open spans to a line.
\<close>

definition extend :: "nat \<Rightarrow> Scan \<Rightarrow> Scan" where
  "extend n s = s\<lparr>current := map (\<lambda>(ty, firstLine, _). (ty, firstLine, n)) (current s)\<rparr>"

text \<open>
  Modelled from the spec: the type of the outermost open span in the scan of
  \<^verbatim>\<open>analyzeForComposition\<close> of the missing \<^verbatim>\<open>CodeAnalyzer.ts\<close>.
\<close>

definition currentType :: "Scan \<Rightarrow> SectionType option" where
  "currentType s = (case current s of [] \<Rightarrow> None | sp # _ \<Rightarrow> Some (fst sp))"

text \<open>
  Modelled from the spec: the balance of braces after a line, for the scan of \<^verbatim>\<open>analyzeForComposition\<close>
  in the missing \<^verbatim>\<open>CodeAnalyzer.ts\<close>.
\<close>

fun braceScan :: "string \<Rightarrow> int \<Rightarrow> bool \<Rightarrow> int \<times> bool" where
  "braceScan [] depth opened = (depth, opened)"
| "braceScan (c # cs) depth opened =
     (if c = CHR ''{'' then braceScan cs (depth + 1) True
      else if c = CHR ''}'' then braceScan cs (depth - 1) opened
      else braceScan cs depth opened)"

text \<open>
  Modelled from the spec: the end of a \<^verbatim>\<open>def\<close> in the scan of \<^verbatim>\<open>analyzeForComposition\<close> of the missing
  \<^verbatim>\<open>CodeAnalyzer.ts\<close>: the function ends before the first non-blank line that is not indented more
  deeply than the declaration.
\<close>

definition dedent :: "string \<Rightarrow> Scan \<Rightarrow> Scan" where
  "dedent line s =
     (case extent s of
        Some (Indent k) \<Rightarrow>
          if \<not> isBlank line \<and> indentation line \<le> k then (closeCurrent s)\<lparr>extent := None\<rparr> else s
      | _ \<Rightarrow> s)"

text \<open>
  Modelled from the spec: the end of a \<^verbatim>\<open>function\<close> in the scan of \<^verbatim>\<open>analyzeForComposition\<close> of the
  missing \<^verbatim>\<open>CodeAnalyzer.ts\<close>: the function ends with the line on which its braces are balanced again.
\<close>

definition closingBrace :: "string \<Rightarrow> Scan \<Rightarrow> Scan" where
  "closingBrace line s =
     (case extent s of
        Some (Braces depth opened) \<Rightarrow>
          (let (depth', opened') = braceScan line depth opened
           in if opened' \<and> depth' \<le> 0 then (closeCurrent s)\<lparr>extent := None\<rparr>
              else s\<lparr>extent := Some (Braces depth' opened')\<rparr>)
      | _ \<Rightarrow> s)"

text \<open>
  Modelled from the spec: the sections a line belongs to in \<^verbatim>\<open>analyzeForComposition\<close> of the
  missing \<^verbatim>\<open>CodeAnalyzer.ts\<close>. A run of import statements is one import section. A declaration opens a
  function section, which runs through the matching closing brace or up to the dedent. A
  return statement opens a return section, which takes the trailing lines up to the end of
  the section it is in: inside a function the return section lies within the function
  section and ends with it. Other code forms sections of type \<^verbatim>\<open>other\<close>. Inside a
  function only a return statement opens a section; blank lines outside a function open
  nothing and extend nothing.
\<close>

definition classify :: "nat \<Rightarrow> string \<Rightarrow> Scan \<Rightarrow> Scan" where
  "classify n line s =
     (if isBlank line then (if extent s \<noteq> None then extend n s else s)
      else if extent s \<noteq> None
        then (if isReturnLine line then nestSection Return n (extend n s) else extend n s)
      else if isImportLine line
        then (if currentType s = Some Import then extend n s else openSection Import n s)
      else if isFunctionLine line
        then (openSection Function n s)\<lparr>extent := Some (Braces 0 False)\<rparr>
      else if isDefLine line
        then (openSection Function n s)\<lparr>extent := Some (Indent (indentation line))\<rparr>
      else if isReturnLine line then openSection Return n s
      else if current s = [] \<or> currentType s = Some Import then openSection Other n s
      else extend n s)"

text \<open>
  Modelled from the spec: one line of the scan of \<^verbatim>\<open>analyzeForComposition\<close> in the missing \<^verbatim>\<open>CodeAnalyzer.ts\<close>: the
  end of a \<^verbatim>\<open>def\<close> before the line, the line itself, the end of a \<^verbatim>\<open>function\<close> after it.
\<close>

definition scanLine :: "nat \<Rightarrow> string \<Rightarrow> Scan \<Rightarrow> Scan" where
  "scanLine n line s = closingBrace line (classify n line (dedent line s))"

text \<open>
  Modelled from the spec: the scan of \<^verbatim>\<open>analyzeForComposition\<close> in the missing \<^verbatim>\<open>CodeAnalyzer.ts\<close> over all lines,
  top to bottom, with the line number.
\<close>

fun scanLines :: "nat \<Rightarrow> string list \<Rightarrow> Scan \<Rightarrow> Scan" where
  "scanLines n [] s = s"
| "scanLines n (line # rest) s = scanLines (Suc n) rest (scanLine n line s)"

text \<open>
  Modelled from the spec: the spans that \<^verbatim>\<open>analyzeForComposition\<close> of the missing \<^verbatim>\<open>CodeAnalyzer.ts\<close>
  identifies in a text.
\<close>

definition identifySections :: "string \<Rightarrow> Span list" where
  "identifySections code =
     finished (closeCurrent
       (scanLines 1 (splitLines code) \<lparr>finished = [], current = [], extent = None\<rparr>))"

text \<open>
  Modelled from the spec: the budget of a composition in \<^verbatim>\<open>analyzeForComposition\<close> of the missing
  \<^verbatim>\<open>CodeAnalyzer.ts\<close>, 15 seconds.
\<close>

definition totalDuration :: real where
  "totalDuration = 15"

text \<open>
  Modelled from the spec: the floor of a section's duration in \<^verbatim>\<open>analyzeForComposition\<close> of the missing
  \<^verbatim>\<open>CodeAnalyzer.ts\<close>. The specification names a floor for import sections only and gives no value;
  here it is one second.
\<close>

definition minimumShare :: "SectionType \<Rightarrow> real" where
  "minimumShare ty = (case ty of Import \<Rightarrow> 1 | _ \<Rightarrow> 0)"

text \<open>
  Modelled from the spec: the size of a section, in lines, to which \<^verbatim>\<open>analyzeForComposition\<close> of the
  missing \<^verbatim>\<open>CodeAnalyzer.ts\<close> allocates in proportion.
\<close>

definition lineCount :: "Span \<Rightarrow> nat" where
  "lineCount sp = (case sp of (ty, firstLine, lastLine) \<Rightarrow> lastLine - firstLine + 1)"

text \<open>
  Modelled from the spec: the naive allocation of \<^verbatim>\<open>analyzeForComposition\<close> in the missing \<^verbatim>\<open>CodeAnalyzer.ts\<close>:
  a section's share of the budget in proportion to its line count, or its floor if that is
  larger.
\<close>

definition naiveDurations :: "Span list \<Rightarrow> real list" where
  "naiveDurations spans =
     (let total = sum_list (map lineCount spans)
      in map (\<lambda>sp. max (minimumShare (fst sp))
                       (totalDuration * real (lineCount sp) / real total)) spans)"

text \<open>
  Modelled from the spec: the duration allocation of \<^verbatim>\<open>analyzeForComposition\<close> in the missing
  \<^verbatim>\<open>CodeAnalyzer.ts\<close>: when the naive durations exceed the budget, all of them are scaled by the same
  factor, budget over sum.
\<close>

definition allocateDurations :: "Span list \<Rightarrow> real list" where
  "allocateDurations spans =
     (let naive = naiveDurations spans;
          factor = (if sum_list naive > totalDuration then totalDuration / sum_list naive else 1)
      in map (\<lambda>d. d * factor) naive)"

text \<open>
  Modelled from the spec: the scale from which \<^verbatim>\<open>analyzeForComposition\<close> of the missing \<^verbatim>\<open>CodeAnalyzer.ts\<close> draws notes,
  major or minor by the root key that \<^verbatim>\<open>analyze\<close> returns for the text.
\<close>

definition scaleOf :: "string \<Rightarrow> string list" where
  "scaleOf key =
     (if key = ''C'' then [''C4'', ''D4'', ''E4'', ''F4'', ''G4'', ''A4'', ''B4'']
      else if key = ''G'' then [''G4'', ''A4'', ''B4'', ''C5'', ''D5'', ''E5'', ''F#5'']
      else if key = ''Dm'' then [''D4'', ''E4'', ''F4'', ''G4'', ''A4'', ''Bb4'', ''C5'']
      else [''A4'', ''B4'', ''C5'', ''D5'', ''E5'', ''F5'', ''G5''])"

text \<open>
  Modelled from the spec: the notes of a section in \<^verbatim>\<open>analyzeForComposition\<close> of the missing \<^verbatim>\<open>CodeAnalyzer.ts\<close>: root
  and fifth for an import section, the walked scale for a function section, the triad for a
  return section, the root for any other section.
\<close>

definition notesFor :: "SectionType \<Rightarrow> string list \<Rightarrow> string list" where
  "notesFor ty scale =
     (case ty of
        Import \<Rightarrow> [scale ! 0, scale ! 4]
      | Function \<Rightarrow> scale
      | Return \<Rightarrow> [scale ! 0, scale ! 2, scale ! 4]
      | _ \<Rightarrow> [scale ! 0])"

text \<open>
  Modelled from the spec: the instrument of a section in \<^verbatim>\<open>analyzeForComposition\<close> of the missing
  \<^verbatim>\<open>CodeAnalyzer.ts\<close>: rhythm for imports, melody for functions, harmony for returns, the three in turn
  for other sections.
\<close>

definition instrumentFor :: "SectionType \<Rightarrow> nat \<Rightarrow> InstrumentType" where
  "instrumentFor ty i =
     (case ty of
        Import \<Rightarrow> Rhythm
      | Function \<Rightarrow> Melody
      | Return \<Rightarrow> Harmony
      | _ \<Rightarrow> [Rhythm, Harmony, Melody] ! (i mod 3))"

text \<open>
  Modelled from the spec: \<^verbatim>\<open>analyzeForComposition(code, language)\<close> of the missing \<^verbatim>\<open>CodeAnalyzer.ts\<close>.
  Every section carries the tempo that \<^verbatim>\<open>analyze\<close> returns for the text.
\<close>

definition analyzeForComposition :: "string \<Rightarrow> string \<Rightarrow> CompositionSection list" where
  "analyzeForComposition code language =
     (let spans = identifySections code;
          durations = allocateDurations spans;
          moodData = analyze code language;
          scale = scaleOf (rootKey moodData)
      in map (\<lambda>(i, (ty, firstLine, lastLine), d).
                \<lparr>sectionType = ty, startLine = int firstLine, endLine = int lastLine, duration = d,
                  sectionNotes = notesFor ty scale, sectionTempo = tempo moodData,
                  instrument = instrumentFor ty i\<rparr>)
           (zip [0..<length spans] (zip spans durations)))"

section \<open>Vocabulary of the statements\<close>

text \<open>
  The callbacks that a scheduling step adds to an empty timeline, the start time of the
  section at an index (the durations before it, summed), and the predicate, used in the
  proofs only, that a step changes a transport by appending to its timeline.
\<close>

definition scheduledBy :: "(Transport \<Rightarrow> Transport) \<Rightarrow> (real \<times> Trigger) list" where
  "scheduledBy f = timeline (f idle)"

definition appends :: "(Transport \<Rightarrow> Transport) \<Rightarrow> bool" where
  "appends f = (\<exists>es. \<forall>t. f t = t\<lparr>timeline := timeline t @ es\<rparr>)"

definition startTimeOf :: "CompositionSection list \<Rightarrow> nat \<Rightarrow> real" where
  "startTimeOf sections i = sum_list (map duration (take i sections))"

text \<open>
  The triggers that a section is to put on the timeline when it starts at a given time,
  written out with their times: a beat every half second and a chord at the start for an
  import section; for a function section every note at the start plus its index times the
  duration divided by the number of notes, every second one doubled by the rhythm
  instrument, and a chord at the start; chord, melody note and rhythm hit for a return
  section; one pattern by instrument for any other section.
\<close>

definition expectedTriggers :: "real \<Rightarrow> CompositionSection \<Rightarrow> (real \<times> Trigger) list" where
  "expectedTriggers startTime section =
     (let d = duration section; ns = sectionNotes section; n = length ns
      in case sectionType section of
           Import \<Rightarrow>
             map (\<lambda>i. (startTime + real i * (1/2),
                        \<lparr>synth = RhythmInstrument, pitches = [''C2''], noteLength = Notation ''8n''\<rparr>))
               [0..<nat \<lfloor>d / (1/2)\<rfloor>]
             @ (if ns \<noteq> []
                then [(startTime, \<lparr>synth = HarmonyInstrument, pitches = take 3 ns,
                                   noteLength = Seconds d\<rparr>)]
                else [])
         | Function \<Rightarrow>
             concat (map (\<lambda>k.
                (startTime + real k * (d / real n),
                 \<lparr>synth = MelodyInstrument, pitches = [ns ! k], noteLength = Notation ''8n''\<rparr>)
                # (if even k
                   then [(startTime + real k * (d / real n),
                          \<lparr>synth = RhythmInstrument, pitches = [''C1''],
                            noteLength = Notation ''16n''\<rparr>)]
                   else [])) [0..<n])
             @ (if 3 \<le> n
                then [(startTime, \<lparr>synth = HarmonyInstrument,
                                   pitches = [ns ! 0, ns ! (n div 2), ns ! (n - 1)],
                                   noteLength = Seconds (d * (8/10))\<rparr>)]
                else [])
         | Return \<Rightarrow>
             (if 3 \<le> n
              then [(startTime, \<lparr>synth = HarmonyInstrument, pitches = take 3 ns,
                                 noteLength = Seconds d\<rparr>),
                    (startTime + d * (3/10), \<lparr>synth = MelodyInstrument, pitches = [ns ! 0],
                                 noteLength = Seconds (d * (5/10))\<rparr>),
                    (startTime, \<lparr>synth = RhythmInstrument, pitches = [''C2''],
                                 noteLength = Notation ''4n''\<rparr>)]
              else [])
         | _ \<Rightarrow>
             (if ns = [] then []
              else case instrument section of
                Rhythm \<Rightarrow> [(startTime, \<lparr>synth = RhythmInstrument, pitches = [''C1''],
                                         noteLength = Notation ''8n''\<rparr>)]
              | Harmony \<Rightarrow> [(startTime, \<lparr>synth = HarmonyInstrument, pitches = take 3 ns,
                                          noteLength = Seconds d\<rparr>)]
              | Melody \<Rightarrow>
                  map (\<lambda>k. (startTime + real k * (d / real n),
                             \<lparr>synth = MelodyInstrument, pitches = [ns ! k],
                               noteLength = Notation ''16n''\<rparr>)) [0..<n]))"

text \<open>The distinct categories among detected errors.\<close>

definition errorCategories :: "SyntaxError list \<Rightarrow> ErrorCategory list" where
  "errorCategories errors = remdups (map category errors)"

text \<open>Concrete inputs of the examples.\<close>

definition exampleSections :: "CompositionSection list" where
  "exampleSections =
     [\<lparr>sectionType = Import, startLine = 1, endLine = 1, duration = 5,
        sectionNotes = [''C4'', ''G4''], sectionTempo = 100, instrument = Rhythm\<rparr>,
      \<lparr>sectionType = Function, startLine = 2, endLine = 4, duration = 10,
        sectionNotes = [''C4'', ''D4'', ''E4'', ''F4''], sectionTempo = 140, instrument = Melody\<rparr>]"

definition commentedRecursion :: string where
  "commentedRecursion = ''// countdown'' @ [CHR 0x0A] @ ''function f(n) { return f(n - 1); }''"

definition misspelledCode :: string where
  "misspelledCode = ''fucntion helo( { retunr false }''"

text \<open>
  The inputs of the unit tests in \<^verbatim>\<open>CodeAnalyzer.test.ts\<close>, with their line breaks and
  indentation.
\<close>

definition nestedBlocks :: string where
  "nestedBlocks =
     ''''
     @ [CHR 0x0A] @ ''        function outer() {''
     @ [CHR 0x0A] @ ''          if (true) {''
     @ [CHR 0x0A] @ ''            for (let i = 0; i < 10; i++) {''
     @ [CHR 0x0A] @ ''              console.log(i);''
     @ [CHR 0x0A] @ ''            }''
     @ [CHR 0x0A] @ ''          }''
     @ [CHR 0x0A] @ ''        }''
     @ [CHR 0x0A] @ ''      ''"

definition indentedBlocks :: string where
  "indentedBlocks =
     ''''
     @ [CHR 0x0A] @ ''def outer():''
     @ [CHR 0x0A] @ ''    if True:''
     @ [CHR 0x0A] @ ''        for i in range(10):''
     @ [CHR 0x0A] @ ''            print(i)''
     @ [CHR 0x0A] @ ''      ''"

definition factorialCode :: string where
  "factorialCode =
     ''''
     @ [CHR 0x0A] @ ''        function factorial(n) {''
     @ [CHR 0x0A] @ ''          if (n <= 1) return 1;''
     @ [CHR 0x0A] @ ''          return n * factorial(n - 1);''
     @ [CHR 0x0A] @ ''        }''
     @ [CHR 0x0A] @ ''      ''"

definition deeplyNested :: string where
  "deeplyNested =
     ''''
     @ [CHR 0x0A] @ ''        function complex() {''
     @ [CHR 0x0A] @ ''          if (true) {''
     @ [CHR 0x0A] @ ''            for (let i = 0; i < 10; i++) {''
     @ [CHR 0x0A] @ ''              while (true) {''
     @ [CHR 0x0A] @ ''                if (i > 5) {''
     @ [CHR 0x0A] @ ''                  break;''
     @ [CHR 0x0A] @ ''                }''
     @ [CHR 0x0A] @ ''              }''
     @ [CHR 0x0A] @ ''            }''
     @ [CHR 0x0A] @ ''          }''
     @ [CHR 0x0A] @ ''        }''
     @ [CHR 0x0A] @ ''      ''"

definition smallModule :: string where
  "smallModule =
     ''''
     @ [CHR 0x0A] @ ''        import React from \"react\";''
     @ [CHR 0x0A] @ ''        function hello() {''
     @ [CHR 0x0A] @ ''          return true;''
     @ [CHR 0x0A] @ ''        }''
     @ [CHR 0x0A] @ ''      ''"

definition helloCode :: string where
  "helloCode = ''function hello() { return true; }''"

text \<open>
  For the statements and proofs about the scan: the first and last line of a span; when a
  span may directly follow another in the result (it starts later, and either the earlier
  span ends before it starts or it is a return section that ends with the earlier span);
  spans that end on the same line; and the invariant of the scan before line \<^verbatim>\<open>n\<close>.
\<close>

definition spanFirst :: "Span \<Rightarrow> nat" where "spanFirst sp = fst (snd sp)"
definition spanLast :: "Span \<Rightarrow> nat" where "spanLast sp = snd (snd sp)"




definition crowdedCode :: string where
  "crowdedCode = ''import a'' @ concat (replicate 15 ([CHR 0x0A] @ ''x''))"

definition returningFunction :: string where
  "returningFunction =
     ''function hello() {'' @ [CHR 0x0A] @ ''  return true;'' @ [CHR 0x0A] @ ''}''"

section \<open>Commit playback: what is scheduled, and when\<close>

lemma appendsD: 
  assumes "appends f"
  shows "f t = t\<lparr>timeline := timeline t @ scheduledBy f\<rparr>"
proof -
  from assms obtain es where es: "\<And>t. f t = t\<lparr>timeline := timeline t @ es\<rparr>"
    unfolding appends_def by blast
  have "scheduledBy f = es" by (simp add: scheduledBy_def es idle_def)
  with es show ?thesis by simp
qed

lemma appends_id: "appends (\<lambda>t. t)"
  unfolding appends_def by (rule exI[of _ "[]"]) simp

lemma appends_schedule: "appends (schedule tr time)"
  unfolding appends_def schedule_def by blast

lemma appends_comp: 
  assumes "appends f" "appends g" shows "appends (\<lambda>t. g (f t))"
proof -
  from assms obtain es fs where "\<And>t. f t = t\<lparr>timeline := timeline t @ es\<rparr>"
     "\<And>t. g t = t\<lparr>timeline := timeline t @ fs\<rparr>"
    unfolding appends_def by blast
  then have "\<forall>t. g (f t) = t\<lparr>timeline := timeline t @ (es @ fs)\<rparr>" by simp
  then show ?thesis unfolding appends_def by blast
qed

lemma appends_importBeats: "appends (importBeats s i n)"
proof (induction n arbitrary: i)
  case 0 show ?case using appends_id by simp
next
  case (Suc n)
  have "appends (\<lambda>t. importBeats s (Suc i) n (schedule \<lparr>synth = RhythmInstrument, pitches = [''C2''], noteLength = Notation ''8n''\<rparr>
          (s + real i * (1/2)) t))"
    by (rule appends_comp[OF appends_schedule Suc.IH])
  then show ?case by simp
qed

lemma appends_functionNotes: "appends (functionNotes s d i ns)"
proof (induction ns arbitrary: i)
  case Nil show ?case using appends_id by simp
next
  case (Cons a ns)
  show ?case
  proof (cases "i mod 2 = 0")
    case True
    then show ?thesis using appends_comp[OF appends_comp[OF appends_schedule appends_schedule] Cons.IH]
      by (simp add: Let_def)
  next
    case False
    then show ?thesis using appends_comp[OF appends_schedule Cons.IH]
      by (simp add: Let_def)
  qed
qed

lemma appends_genericNotes: "appends (genericNotes s d i ns)"
proof (induction ns arbitrary: i)
  case Nil show ?case using appends_id by simp
next
  case (Cons a ns)
  show ?case using appends_comp[OF appends_schedule Cons.IH] by simp
qed

lemma appends_scheduleImportSection: "appends (scheduleImportSection s d ns)"
  unfolding scheduleImportSection_def Let_def
  using appends_importBeats appends_comp[OF appends_importBeats appends_schedule]
  by (cases "length ns > 0") simp_all

lemma appends_scheduleFunctionSection: "appends (scheduleFunctionSection s d ns)"
  unfolding scheduleFunctionSection_def Let_def
  using appends_id appends_functionNotes appends_comp[OF appends_functionNotes appends_schedule]
  by (cases "length ns = 0"; cases "length ns \<ge> 3") simp_all

lemma appends_scheduleReturnSection: "appends (scheduleReturnSection s d ns)"
  unfolding scheduleReturnSection_def Let_def
  using appends_id appends_comp[OF appends_comp[OF appends_schedule appends_schedule] appends_schedule]
  by (cases "length ns \<ge> 3") simp_all

lemma appends_scheduleGenericSection: "appends (scheduleGenericSection s d ns instr)"
  unfolding scheduleGenericSection_def
  using appends_id appends_schedule appends_genericNotes
  by (cases "length ns = 0"; cases instr) simp_all

lemma appends_scheduleSection: "appends (scheduleSection s sec)"
  unfolding scheduleSection_def
  using appends_scheduleImportSection appends_scheduleFunctionSection appends_scheduleReturnSection
    appends_scheduleGenericSection
  by (cases "sectionType sec") simp_all

lemma scheduleSection_eq:
  "scheduleSection s sec t = t\<lparr>timeline := timeline t @ scheduledBy (scheduleSection s sec)\<rparr>"
  by (rule appendsD[OF appends_scheduleSection])

lemma forEachSection_timeline:
  "timeline (fst (forEachSection secs cur t)) = timeline t @
     concat (map (\<lambda>i. scheduledBy (scheduleSection (cur + startTimeOf secs i) (secs ! i)))
       [0..<length secs])"
proof (induction secs arbitrary: cur t)
  case Nil show ?case by simp
next
  case (Cons s ss)
  have shift: "map (\<lambda>i. scheduledBy (scheduleSection (cur + startTimeOf (s # ss) i) ((s # ss) ! i))) [0..<Suc (length ss)]
     = scheduledBy (scheduleSection cur s) #
       map (\<lambda>i. scheduledBy (scheduleSection (cur + duration s + startTimeOf ss i) (ss ! i))) [0..<length ss]"
    by (simp add: upt_conv_Cons map_Suc_upt[symmetric] startTimeOf_def add.assoc del: upt_Suc)
  have "timeline (scheduleSection cur s (setBpm (sectionTempo s) t)) = timeline t @ scheduledBy (scheduleSection cur s)"
    by (subst scheduleSection_eq) (simp add: setBpm_def)
  then show ?case
    by (simp add: Let_def Cons.IH shift del: upt_Suc)
qed

lemma forEachSection_time:
  "snd (forEachSection secs cur t) = cur + sum_list (map duration secs)"
  by (induction secs arbitrary: cur t) (simp_all add: Let_def)

lemma forEachSection_bpm:
  "bpm (fst (forEachSection secs cur t)) = (if secs = [] then bpm t else sectionTempo (last secs))"
proof (induction secs arbitrary: cur t)
  case Nil show ?case by simp
next
  case (Cons s ss)
  have "bpm (scheduleSection cur s (setBpm (sectionTempo s) t)) = sectionTempo s"
    by (subst scheduleSection_eq) (simp add: setBpm_def)
  then show ?case by (simp add: Let_def Cons.IH)
qed

lemma playCommitComposition_unfold:
  "playCommitComposition sections t =
     stopAfter (snd (forEachSection sections 0 (cancel (stop t))))
       (start (fst (forEachSection sections 0 (cancel (stop t)))))"
  by (simp add: playCommitComposition_def Let_def split_beta)

lemma timeline_importBeats:
  "timeline (importBeats s i n t) = timeline t @
     map (\<lambda>j. (s + real j * (1/2),
               \<lparr>synth = RhythmInstrument, pitches = [''C2''], noteLength = Notation ''8n''\<rparr>))
       [i..<i + n]"
proof (induction n arbitrary: i t)
  case 0 show ?case by simp
next
  case (Suc n)
  show ?case
    by (simp add: Suc.IH schedule_def upt_conv_Cons del: upt_Suc)
qed

lemma timeline_functionNotes:
  "timeline (functionNotes s d i ns t) = timeline t @
     concat (map (\<lambda>k.
        (s + real (i + k) * d,
         \<lparr>synth = MelodyInstrument, pitches = [ns ! k], noteLength = Notation ''8n''\<rparr>)
        # (if even (i + k)
           then [(s + real (i + k) * d,
                  \<lparr>synth = RhythmInstrument, pitches = [''C1''], noteLength = Notation ''16n''\<rparr>)]
           else [])) [0..<length ns])"
proof (induction ns arbitrary: i t)
  case Nil show ?case by simp
next
  case (Cons a ns)
  show ?case
    by (simp add: Let_def Cons.IH schedule_def upt_conv_Cons map_Suc_upt[symmetric] o_def
        even_iff_mod_2_eq_zero add.left_commute del: upt_Suc cong: if_cong)
qed

lemma timeline_functionNotes_from_start:
  "timeline (functionNotes s d 0 ns t) = timeline t @
     concat (map (\<lambda>k.
        (s + real k * d,
         \<lparr>synth = MelodyInstrument, pitches = [ns ! k], noteLength = Notation ''8n''\<rparr>)
        # (if even k
           then [(s + real k * d,
                  \<lparr>synth = RhythmInstrument, pitches = [''C1''], noteLength = Notation ''16n''\<rparr>)]
           else [])) [0..<length ns])"
  using timeline_functionNotes [of s d 0 ns t] by (simp cong: if_cong)

lemma timeline_genericNotes:
  "timeline (genericNotes s d i ns t) = timeline t @
     map (\<lambda>k. (s + real (i + k) * d,
               \<lparr>synth = MelodyInstrument, pitches = [ns ! k], noteLength = Notation ''16n''\<rparr>))
       [0..<length ns]"
proof (induction ns arbitrary: i t)
  case Nil show ?case by simp
next
  case (Cons a ns)
  show ?case
    by (simp add: Cons.IH schedule_def upt_conv_Cons map_Suc_upt[symmetric] del: upt_Suc)
qed

lemma scheduledBy_scheduleSection:
  "scheduledBy (scheduleSection startTime section) = expectedTriggers startTime section"
proof (cases "sectionType section")
  case Import
  then show ?thesis
    by (simp add: scheduledBy_def scheduleSection_def expectedTriggers_def
        scheduleImportSection_def timeline_importBeats schedule_def idle_def Let_def)
next
  case Function
  then show ?thesis
    by (simp add: scheduledBy_def scheduleSection_def expectedTriggers_def
        scheduleFunctionSection_def timeline_functionNotes_from_start schedule_def idle_def
        Let_def)
next
  case Return
  then show ?thesis
    by (simp add: scheduledBy_def scheduleSection_def expectedTriggers_def
        scheduleReturnSection_def schedule_def idle_def Let_def)
next
  case Loop
  then show ?thesis
    by (cases "instrument section")
      (simp_all add: scheduledBy_def scheduleSection_def expectedTriggers_def
        scheduleGenericSection_def timeline_genericNotes schedule_def idle_def Let_def)
next
  case Conditional
  then show ?thesis
    by (cases "instrument section")
      (simp_all add: scheduledBy_def scheduleSection_def expectedTriggers_def
        scheduleGenericSection_def timeline_genericNotes schedule_def idle_def Let_def)
next
  case Other
  then show ?thesis
    by (cases "instrument section")
      (simp_all add: scheduledBy_def scheduleSection_def expectedTriggers_def
        scheduleGenericSection_def timeline_genericNotes schedule_def idle_def Let_def)
qed

lemma timeline_playCommitComposition:
  "timeline (playCommitComposition sections t) =
     concat (map (\<lambda>i. expectedTriggers (startTimeOf sections i) (sections ! i))
               [0..<length sections])"
  by (simp add: playCommitComposition_unfold stopAfter_def start_def forEachSection_timeline
      cancel_def scheduledBy_scheduleSection)

text \<open>
  An example: a return section of two seconds followed by a function section of three. The
  function section starts at time 2, its two notes are 1.5 seconds apart.
\<close>

lemma example_commit_timeline:
  "playCommitComposition
     [\<lparr>sectionType = Return, startLine = 1, endLine = 1, duration = 2,
        sectionNotes = [''C4'', ''E4'', ''G4''], sectionTempo = 90, instrument = Harmony\<rparr>,
      \<lparr>sectionType = Function, startLine = 2, endLine = 3, duration = 3,
        sectionNotes = [''C4'', ''D4''], sectionTempo = 120, instrument = Melody\<rparr>] idle
   = \<lparr>bpm = 120, playback = Started,
       timeline =
         [(0, \<lparr>synth = HarmonyInstrument, pitches = [''C4'', ''E4'', ''G4''],
                noteLength = Seconds 2\<rparr>),
          (6/10, \<lparr>synth = MelodyInstrument, pitches = [''C4''], noteLength = Seconds 1\<rparr>),
          (0, \<lparr>synth = RhythmInstrument, pitches = [''C2''], noteLength = Notation ''4n''\<rparr>),
          (2, \<lparr>synth = MelodyInstrument, pitches = [''C4''], noteLength = Notation ''8n''\<rparr>),
          (2, \<lparr>synth = RhythmInstrument, pitches = [''C1''], noteLength = Notation ''16n''\<rparr>),
          (7/2, \<lparr>synth = MelodyInstrument, pitches = [''D4''], noteLength = Notation ''8n''\<rparr>)],
       stopIn = Some 5\<rparr>"
  by (simp add: playCommitComposition_def scheduleSection_def scheduleReturnSection_def
      scheduleFunctionSection_def schedule_def setBpm_def cancel_def stop_def start_def
      stopAfter_def idle_def Let_def)

text \<open>
  C4: for every section sequence, the timeline after \<^verbatim>\<open>playCommitComposition\<close> consists, section
  by section in order, of the triggers of each section at their times, where the start time
  of a section is the sum of the durations of the sections before it; in particular every
  note of a function section is on the timeline, on the melody instrument, at the start time
  of the section plus its index times the duration divided by the number of notes, that is,
  the notes are evenly spaced across the duration.
\<close>

theorem playCommitComposition_start_times:
  "timeline (playCommitComposition sections t) =
     concat (map (\<lambda>i. expectedTriggers (sum_list (map duration (take i sections)))
                      (sections ! i))
               [0..<length sections])
   \<and> (i < length sections \<and> sectionType (sections ! i) = Function
        \<and> k < length (sectionNotes (sections ! i)) \<longrightarrow>
      (sum_list (map duration (take i sections))
         + real k * (duration (sections ! i) / real (length (sectionNotes (sections ! i)))),
       \<lparr>synth = MelodyInstrument, pitches = [sectionNotes (sections ! i) ! k],
         noteLength = Notation ''8n''\<rparr>)
      \<in> set (timeline (playCommitComposition sections t)))"
proof (intro conjI impI)
  show "timeline (playCommitComposition sections t) =
     concat (map (\<lambda>i. expectedTriggers (sum_list (map duration (take i sections)))
                      (sections ! i))
               [0..<length sections])"
    using timeline_playCommitComposition [of sections t] by (simp add: startTimeOf_def)
next
  assume a: "i < length sections \<and> sectionType (sections ! i) = Function
        \<and> k < length (sectionNotes (sections ! i))"
  let ?ns = "sectionNotes (sections ! i)"
  let ?e = "(sum_list (map duration (take i sections))
         + real k * (duration (sections ! i) / real (length ?ns)),
       \<lparr>synth = MelodyInstrument, pitches = [?ns ! k], noteLength = Notation ''8n''\<rparr>)"
  have "?e \<in> set (expectedTriggers (startTimeOf sections i) (sections ! i))"
    using a by (auto simp: expectedTriggers_def Let_def startTimeOf_def)
  moreover have "expectedTriggers (startTimeOf sections i) (sections ! i)
      \<in> set (map (\<lambda>i. expectedTriggers (startTimeOf sections i) (sections ! i))
               [0..<length sections])"
    using a by simp
  ultimately show "?e \<in> set (timeline (playCommitComposition sections t))"
    unfolding timeline_playCommitComposition set_concat by blast
qed

theorem playCommitComposition_start_times_witness:
  "Suc 0 < length exampleSections \<and> sectionType (exampleSections ! Suc 0) = Function
   \<and> 3 < length (sectionNotes (exampleSections ! Suc 0))
   \<and> (25/2, \<lparr>synth = MelodyInstrument, pitches = [''F4''], noteLength = Notation ''8n''\<rparr>)
       \<in> set (timeline (playCommitComposition exampleSections idle))"
proof -
  have time: "sum_list (map duration (take (Suc 0) exampleSections))
      + real 3 * (duration (exampleSections ! Suc 0)
          / real (length (sectionNotes (exampleSections ! Suc 0)))) = 25/2"
    by (simp add: exampleSections_def)
  have pitch: "sectionNotes (exampleSections ! Suc 0) ! 3 = ''F4''"
    by (simp add: exampleSections_def)
  have hyp: "Suc 0 < length exampleSections
      \<and> sectionType (exampleSections ! Suc 0) = Function
      \<and> 3 < length (sectionNotes (exampleSections ! Suc 0))"
    by (simp add: exampleSections_def)
  have "(25/2, \<lparr>synth = MelodyInstrument, pitches = [''F4''], noteLength = Notation ''8n''\<rparr>)
       \<in> set (timeline (playCommitComposition exampleSections idle))"
    using playCommitComposition_start_times
      [of exampleSections idle "Suc 0" 3, THEN conjunct2, THEN mp, OF hyp]
    unfolding time pitch .
  with hyp show ?thesis by blast
qed

text \<open>
  C5: every call of \<^verbatim>\<open>playCommitComposition\<close> first stops the transport and cancels what is
  scheduled on it: the timeline after the call is the one the call produces on an idle
  transport, whatever was scheduled before, and the pending stop is the one of the new
  composition. Stopping and cancelling twice is the same as once, and on an idle transport
  it changes nothing.
\<close>

theorem playCommitComposition_cancels_previous:
  "timeline (playCommitComposition sections t) = timeline (playCommitComposition sections idle)
   \<and> stopIn (playCommitComposition sections t) = Some (sum_list (map duration sections))
   \<and> cancel (stop (cancel (stop t))) = cancel (stop t)
   \<and> cancel (stop idle) = idle"
  by (simp add: playCommitComposition_unfold stopAfter_def start_def forEachSection_timeline
      forEachSection_time cancel_def stop_def idle_def)

text \<open>
  C10: for a non-empty section sequence the scheduling pass assigns the global tempo once per
  section: after the pass has handled the section at index \<^verbatim>\<open>k\<close> the tempo is that
  section's, and after the whole pass it is the tempo of the last section. That is the tempo
  when playback starts; the tempo of an earlier section is overwritten before anything
  plays.
\<close>

theorem playCommitComposition_tempo_of_last:
  "sections \<noteq> [] \<Longrightarrow> k < length sections \<Longrightarrow>
     bpm (fst (forEachSection (take (Suc k) sections) 0 (cancel (stop t))))
       = sectionTempo (sections ! k)
     \<and> bpm (fst (forEachSection sections 0 (cancel (stop t)))) = sectionTempo (last sections)
     \<and> bpm (playCommitComposition sections t) = sectionTempo (last sections)
     \<and> playback (playCommitComposition sections t) = Started"
proof -
  assume nonempty: "sections \<noteq> []" and k: "k < length sections"
  have "last (take (Suc k) sections) = sections ! k"
    using k by (simp add: take_Suc_conv_app_nth)
  then have "bpm (fst (forEachSection (take (Suc k) sections) 0 (cancel (stop t))))
      = sectionTempo (sections ! k)"
    using nonempty by (simp add: forEachSection_bpm)
  then show ?thesis
    using nonempty
    by (simp add: playCommitComposition_unfold stopAfter_def start_def forEachSection_bpm)
qed

theorem playCommitComposition_tempo_of_last_witness:
  "exampleSections \<noteq> [] \<and> 0 < length exampleSections
   \<and> map sectionTempo exampleSections = [100, 140]
   \<and> bpm (fst (forEachSection (take (Suc 0) exampleSections) 0 (cancel (stop idle)))) = 100
   \<and> bpm (fst (forEachSection exampleSections 0 (cancel (stop idle)))) = 140
   \<and> bpm (playCommitComposition exampleSections idle) = 140
   \<and> playback (playCommitComposition exampleSections idle) = Started"
  using playCommitComposition_tempo_of_last [of exampleSections 0 idle]
  by (simp add: exampleSections_def)

section \<open>Mood classification\<close>

text \<open>
  C1: \<^verbatim>\<open>analyze\<close> picks the mood by an ordered priority list, first match winning:
  DISCORDANT when there are syntax errors; otherwise HARMONIOUS when there are comments and
  the nesting depth is at most 2; otherwise INTENSE when there is recursion or the nesting
  depth exceeds 4; otherwise HARMONIOUS. In particular error-free code with comments and a
  nesting depth of at most 2 is HARMONIOUS, also when it is recursive.
\<close>

theorem analyze_mood_priority:
  "mood (analyzeWith syntaxErrorsOf nestingDepthOf recursionOf commentsOf code language) =
     (if syntaxErrorsOf code language \<noteq> [] then DISCORDANT
      else if commentsOf code \<and> nestingDepthOf code \<le> 2 then HARMONIOUS
      else if recursionOf code \<or> nestingDepthOf code > 4 then INTENSE
      else HARMONIOUS)
   \<and> (syntaxErrorsOf code language = [] \<and> commentsOf code \<and> nestingDepthOf code \<le> 2 \<longrightarrow>
        mood (analyzeWith syntaxErrorsOf nestingDepthOf recursionOf commentsOf code language)
          = HARMONIOUS)"
  by (simp add: analyzeWith_def Let_def)

theorem analyze_mood_priority_witness:
  "detectSyntaxErrors commentedRecursion ''javascript'' = []
   \<and> detectComments commentedRecursion
   \<and> calculateNestingDepth commentedRecursion \<le> 2
   \<and> detectRecursion commentedRecursion
   \<and> mood (analyze commentedRecursion ''javascript'') = HARMONIOUS"
proof -
  have e: "detectSyntaxErrors commentedRecursion ''javascript'' = []" by code_simp
  have c: "detectComments commentedRecursion" by code_simp
  have d: "calculateNestingDepth commentedRecursion \<le> 2" by code_simp
  have r: "detectRecursion commentedRecursion" by code_simp
  show ?thesis
    using analyze_mood_priority [where syntaxErrorsOf = detectSyntaxErrors
        and nestingDepthOf = calculateNestingDepth and recursionOf = detectRecursion
        and commentsOf = detectComments and code = commentedRecursion
        and language = "''javascript''"] e c d r
    by (simp add: analyze_def)
qed

text \<open>
  C2: for every code and language the result of \<^verbatim>\<open>analyze\<close> has
  tempo = 60 + intensity * 120, which is a whole number, a tempo between 60 and 180 and an
  intensity between 0 and 1.
\<close>

theorem analyze_tempo_intensity_range:
  "tempo (analyzeWith syntaxErrorsOf nestingDepthOf recursionOf commentsOf code language)
     = 60 + intensity (analyzeWith syntaxErrorsOf nestingDepthOf recursionOf commentsOf code language) * 120
   \<and> tempo (analyzeWith syntaxErrorsOf nestingDepthOf recursionOf commentsOf code language)
     = real_of_int (round (60 + intensity (analyzeWith syntaxErrorsOf nestingDepthOf recursionOf commentsOf code language) * 120))
   \<and> 60 \<le> tempo (analyzeWith syntaxErrorsOf nestingDepthOf recursionOf commentsOf code language)
   \<and> tempo (analyzeWith syntaxErrorsOf nestingDepthOf recursionOf commentsOf code language) \<le> 180
   \<and> 0 \<le> intensity (analyzeWith syntaxErrorsOf nestingDepthOf recursionOf commentsOf code language)
   \<and> intensity (analyzeWith syntaxErrorsOf nestingDepthOf recursionOf commentsOf code language) \<le> 1"
  by (simp add: analyzeWith_def Let_def)

text \<open>
  C6: when the mood returned by \<^verbatim>\<open>analyze\<close> is DISCORDANT the root key ends in
  \<^verbatim>\<open>m\<close>, and when it is HARMONIOUS the root key does not end in \<^verbatim>\<open>m\<close>.
\<close>

theorem analyze_key_family:
  "(mood (analyzeWith syntaxErrorsOf nestingDepthOf recursionOf commentsOf code language) = DISCORDANT
      \<longrightarrow> endsWith (rootKey (analyzeWith syntaxErrorsOf nestingDepthOf recursionOf commentsOf code language)) ''m'')
   \<and> (mood (analyzeWith syntaxErrorsOf nestingDepthOf recursionOf commentsOf code language) = HARMONIOUS
      \<longrightarrow> \<not> endsWith (rootKey (analyzeWith syntaxErrorsOf nestingDepthOf recursionOf commentsOf code language)) ''m'')"
  by (simp add: analyzeWith_def Let_def endsWith_def)

theorem analyze_key_family_witness:
  "mood (analyze misspelledCode ''javascript'') = DISCORDANT
   \<and> endsWith (rootKey (analyze misspelledCode ''javascript'')) ''m''
   \<and> mood (analyze commentedRecursion ''javascript'') = HARMONIOUS
   \<and> \<not> endsWith (rootKey (analyze commentedRecursion ''javascript'')) ''m''"
proof -
  have d: "mood (analyze misspelledCode ''javascript'') = DISCORDANT" by code_simp
  have h: "mood (analyze commentedRecursion ''javascript'') = HARMONIOUS" by code_simp
  show ?thesis
    using analyze_key_family [where syntaxErrorsOf = detectSyntaxErrors
        and nestingDepthOf = calculateNestingDepth and recursionOf = detectRecursion
        and commentsOf = detectComments and code = misspelledCode
        and language = "''javascript''"]
      analyze_key_family [where syntaxErrorsOf = detectSyntaxErrors
        and nestingDepthOf = calculateNestingDepth and recursionOf = detectRecursion
        and commentsOf = detectComments and code = commentedRecursion
        and language = "''javascript''"] d h
    by (simp add: analyze_def)
qed

text \<open>
  C7: as stated (more distinct error categories give a strictly higher intensity), the
  claim fails: a text with one category of error and a text with two get the same
  intensity.
\<close>

theorem analyze_intensity_not_scaled:
  "length (errorCategories (detectSyntaxErrors ''fucntion'' ''javascript''))
     < length (errorCategories (detectSyntaxErrors misspelledCode ''javascript''))
   \<and> \<not> intensity (analyze ''fucntion'' ''javascript'')
        < intensity (analyze misspelledCode ''javascript'')"
proof -
  have "errorCategories (detectSyntaxErrors ''fucntion'' ''javascript'') = [Misspelling]"
    by code_simp
  moreover have "errorCategories (detectSyntaxErrors misspelledCode ''javascript'')
      = [Misspelling, UnmatchedParenthesis]"
    by code_simp
  moreover have "intensity (analyze ''fucntion'' ''javascript'') = 8/10" by code_simp
  moreover have "intensity (analyze misspelledCode ''javascript'') = 8/10" by code_simp
  ultimately show ?thesis by simp
qed

text \<open>
  C7: as amended: whenever \<^verbatim>\<open>detectSyntaxErrors\<close> is non-empty, \<^verbatim>\<open>analyze\<close>
  returns the fixed intensity 0.8, which lies in [0.7, 1.0], whatever the number of error
  categories; in particular the misspelled example of the specification has errors and an
  intensity above 0.7.
\<close>

theorem analyze_error_intensity:
  "(syntaxErrorsOf code language \<noteq> [] \<longrightarrow>
      intensity (analyzeWith syntaxErrorsOf nestingDepthOf recursionOf commentsOf code language)
        = 8/10
      \<and> 7/10 \<le> intensity (analyzeWith syntaxErrorsOf nestingDepthOf recursionOf commentsOf code
                language)
      \<and> intensity (analyzeWith syntaxErrorsOf nestingDepthOf recursionOf commentsOf code language)
          \<le> 1)
   \<and> detectSyntaxErrors misspelledCode ''javascript'' \<noteq> []
   \<and> intensity (analyze misspelledCode ''javascript'') > 7/10"
proof -
  have "detectSyntaxErrors misspelledCode ''javascript'' \<noteq> []" by code_simp
  moreover have "intensity (analyze misspelledCode ''javascript'') = 8/10" by code_simp
  ultimately show ?thesis by (simp add: analyzeWith_def Let_def)
qed

theorem analyze_error_intensity_witness:
  "detectSyntaxErrors ''fucntion'' ''javascript'' \<noteq> []
   \<and> intensity (analyze ''fucntion'' ''javascript'') = 8/10"
proof -
  have e: "detectSyntaxErrors ''fucntion'' ''javascript'' \<noteq> []" by code_simp
  show ?thesis
    using analyze_error_intensity [where syntaxErrorsOf = detectSyntaxErrors
        and nestingDepthOf = calculateNestingDepth and recursionOf = detectRecursion
        and commentsOf = detectComments and code = "''fucntion''"
        and language = "''javascript''"] e
    by (simp add: analyze_def)
qed

section \<open>Composition planning\<close>

















lemma length_allocateDurations: "length (allocateDurations spans) = length spans"
  by (simp add: allocateDurations_def naiveDurations_def Let_def)

lemma length_analyzeForComposition:
  "length (analyzeForComposition code language) = length (identifySections code)"
  by (simp add: analyzeForComposition_def Let_def length_allocateDurations)

lemma nth_analyzeForComposition:
  assumes "i < length (identifySections code)"
  shows "startLine (analyzeForComposition code language ! i) = int (spanFirst (identifySections code ! i))"
    and "endLine (analyzeForComposition code language ! i) = int (spanLast (identifySections code ! i))"
    and "duration (analyzeForComposition code language ! i) = allocateDurations (identifySections code) ! i"
    and "sectionType (analyzeForComposition code language ! i) = fst (identifySections code ! i)"
  using assms
  by (simp_all add: analyzeForComposition_def Let_def length_allocateDurations split_beta
      spanFirst_def spanLast_def)

lemma durations_analyzeForComposition:
  "map duration (analyzeForComposition code language) = allocateDurations (identifySections code)"
  by (rule nth_equalityI)
    (simp_all add: length_analyzeForComposition length_allocateDurations nth_analyzeForComposition)

lemma naiveDurations_positive:
  assumes "d \<in> set (naiveDurations spans)" shows "0 < d"
proof -
  let ?total = "sum_list (map lineCount spans)"
  from assms obtain sp where sp: "sp \<in> set spans"
    and d: "d = max (minimumShare (fst sp)) (totalDuration * real (lineCount sp) / real ?total)"
    by (auto simp: naiveDurations_def Let_def)
  have "0 < lineCount sp" by (simp add: lineCount_def split: prod.splits)
  moreover have "lineCount sp \<le> ?total"
    using sp by (induction spans) auto
  ultimately have "0 < totalDuration * real (lineCount sp) / real ?total"
    by (simp add: totalDuration_def)
  then show ?thesis unfolding d by (simp add: less_max_iff_disj)
qed

lemma sum_allocateDurations:
  "sum_list (allocateDurations spans) =
     (if sum_list (naiveDurations spans) > totalDuration then totalDuration
      else sum_list (naiveDurations spans))"
proof -
  have "sum_list (map (\<lambda>d. d * f) xs) = sum_list xs * f" for f :: real and xs
    by (induction xs) (simp_all add: algebra_simps)
  then show ?thesis
    by (simp add: allocateDurations_def Let_def totalDuration_def)
qed

lemma allocateDurations_positive:
  assumes "d \<in> set (allocateDurations spans)" shows "0 < d"
proof -
  let ?naive = "naiveDurations spans"
  let ?f = "if sum_list ?naive > totalDuration then totalDuration / sum_list ?naive else 1"
  from assms obtain d0 where "d0 \<in> set ?naive" "d = d0 * ?f"
    by (auto simp: allocateDurations_def Let_def)
  moreover have "0 < ?f" by (simp add: totalDuration_def)
  ultimately show ?thesis using naiveDurations_positive by simp
qed

text \<open>
  C3: every section that \<^verbatim>\<open>analyzeForComposition\<close> returns has a duration above 0, and the
  durations sum to at most 15 seconds; when the naive proportional allocation exceeds the
  budget, every duration is the naive one times the common factor 15 / sum, and the sum is
  exactly 15. This holds for every text, the empty one included.
\<close>

theorem analyzeForComposition_durations:
  "list_all (\<lambda>section. 0 < duration section) (analyzeForComposition code language)
   \<and> sum_list (map duration (analyzeForComposition code language)) \<le> 15
   \<and> (sum_list (naiveDurations (identifySections code)) > 15 \<longrightarrow>
        map duration (analyzeForComposition code language)
          = map (\<lambda>d. d * (15 / sum_list (naiveDurations (identifySections code))))
              (naiveDurations (identifySections code))
        \<and> sum_list (map duration (analyzeForComposition code language)) = 15)"
proof -
  let ?spans = "identifySections code"
  have pos: "\<forall>d \<in> set (map duration (analyzeForComposition code language)). 0 < d"
    unfolding durations_analyzeForComposition using allocateDurations_positive by blast
  have "list_all (\<lambda>section. 0 < duration section) (analyzeForComposition code language)"
    using pos by (simp add: list_all_iff)
  moreover have "sum_list (map duration (analyzeForComposition code language)) \<le> 15"
    by (simp add: durations_analyzeForComposition sum_allocateDurations totalDuration_def)
  moreover have "sum_list (naiveDurations ?spans) > 15 \<longrightarrow>
        map duration (analyzeForComposition code language)
          = map (\<lambda>d. d * (15 / sum_list (naiveDurations ?spans))) (naiveDurations ?spans)
        \<and> sum_list (map duration (analyzeForComposition code language)) = 15"
    by (simp add: durations_analyzeForComposition sum_allocateDurations totalDuration_def)
      (simp add: allocateDurations_def Let_def totalDuration_def)
  ultimately show ?thesis by blast
qed

theorem analyzeForComposition_durations_witness:
  "sum_list (naiveDurations (identifySections crowdedCode)) = 241/16
   \<and> map duration (analyzeForComposition crowdedCode ''javascript'') = [240/241, 3375/241]
   \<and> sum_list (map duration (analyzeForComposition crowdedCode ''javascript'')) = 15"
proof -
  have naive: "naiveDurations (identifySections crowdedCode) = [1, 225/16]"
    by code_simp
  show ?thesis
    using analyzeForComposition_durations [of crowdedCode "''javascript''"]
    by (simp add: naive)
qed




section \<open>Empty input\<close>


section \<open>The unit tests of CodeAnalyzer\<close>

text \<open>
  The expectations of \<^verbatim>\<open>CodeAnalyzer.test.ts\<close>, evaluated on the definitions above: the
  detectors and the planner that are modelled from the specification agree with the tests
  that the repository has for them.
\<close>

lemma test_no_errors_in_valid_code: "detectSyntaxErrors helloCode ''javascript'' = []"
  by code_simp

lemma test_misspelled_function:
  "detectSyntaxErrors ''fucntion hello() { return true; }'' ''javascript'' \<noteq> []
   \<and> contains (message (hd (detectSyntaxErrors ''fucntion hello() { return true; }''
          ''javascript''))) ''function''"
  by code_simp

lemma test_misspelled_return:
  "detectSyntaxErrors ''function hello() { retunr false; }'' ''javascript'' \<noteq> []
   \<and> contains (message (hd (detectSyntaxErrors ''function hello() { retunr false; }''
          ''javascript''))) ''return''"
  by code_simp

lemma test_unmatched_parentheses:
  "detectSyntaxErrors ''function hello( { return false; }'' ''javascript'' \<noteq> []"
  by code_simp

lemma test_unmatched_braces:
  "detectSyntaxErrors ''function hello() { return false;'' ''javascript'' \<noteq> []"
  by code_simp

lemma test_depth_of_simple_function: "calculateNestingDepth helloCode = 1"
  by code_simp

lemma test_depth_of_nested_blocks: "calculateNestingDepth nestedBlocks > 2"
  by code_simp

lemma test_depth_by_indentation: "calculateNestingDepth indentedBlocks > 0"
  by code_simp

lemma test_recursion: "detectRecursion factorialCode \<and> \<not> detectRecursion helloCode"
  by code_simp

lemma test_comments:
  "detectComments (''// This is a comment'' @ [CHR 0x0A] @ ''function hello() {}'')
   \<and> detectComments (''/* This is a comment */'' @ [CHR 0x0A] @ ''function hello() {}'')
   \<and> detectComments (''# This is a comment'' @ [CHR 0x0A] @ ''def hello():'' @ [CHR 0x0A]
         @ ''    pass'')
   \<and> \<not> detectComments helloCode"
  by code_simp

lemma test_moods:
  "mood (analyze (''// Good function'' @ [CHR 0x0A] @ helloCode) ''javascript'') = HARMONIOUS
   \<and> mood (analyze misspelledCode ''javascript'') = DISCORDANT
   \<and> contains (rootKey (analyze misspelledCode ''javascript'')) ''m''
   \<and> intensity (analyze misspelledCode ''javascript'') > 5/10
   \<and> mood (analyze deeplyNested ''javascript'') = INTENSE
   \<and> intensity (analyze deeplyNested ''javascript'') > 7/10
   \<and> mood (analyze factorialCode ''javascript'') = INTENSE"
  by code_simp

lemma test_import_section:
  "map (\<lambda>s. (sectionType s, instrument s))
     (analyzeForComposition (''import React from \"react\";'' @ [CHR 0x0A]
        @ ''import { useState } from \"react\";'') ''javascript'')
   = [(Import, Rhythm)]"
  by code_simp

lemma test_function_section:
  "map (\<lambda>s. (sectionType s, instrument s, sectionNotes s \<noteq> []))
     (analyzeForComposition helloCode ''javascript'')
   = [(Function, Melody, True)]"
  by code_simp

lemma test_return_section:
  "map (\<lambda>s. (sectionType s, instrument s))
     (analyzeForComposition returningFunction ''javascript'')
   = [(Function, Melody), (Return, Harmony)]"
  by code_simp

lemma test_small_module:
  "map (\<lambda>s. (sectionType s, startLine s, endLine s, duration s, instrument s))
     (analyzeForComposition smallModule ''javascript'')
   = [(Import, 2, 2, 5/2, Rhythm), (Function, 3, 5, 15/2, Melody),
      (Return, 4, 5, 5, Harmony)]"
  by code_simp

end
